theory Spec2Isabelle
  imports Complex_Main
begin

section \<open>Python values used by the recorder core\<close>

text \<open>
  The payload dictionaries of the source are typed \<open>Dict[str, Any]\<close>. Their values are
  opaque to the code modelled here (they are stored, copied and merged, never inspected),
  so \<open>anyval\<close> only has to offer enough distinct values. Timestamps are Python floats;
  they are modelled as reals: the model is exact where the source rounds.
\<close>

datatype anyval = ANone | ABool bool | AInt int | AFloat real | AStr string

type_synonym pydict = "string \<rightharpoonup> anyval"

text \<open>Every exception raised by \<open>actions/action.py\<close> is a \<open>ValueError\<close> with a message.\<close>

datatype py_error = ValueError string

text \<open>
  \<open>str(n)\<close> of a Python integer: its decimal digits, with a sign when negative.
  \<open>digit_char\<close> is only ever applied to a number below ten.
\<close>

definition digit_char :: "nat \<Rightarrow> char" where
  "digit_char n = ''0123456789'' ! n"

fun str_nat :: "nat \<Rightarrow> string" where
  "str_nat n = (if n < 10 then [digit_char n] else str_nat (n div 10) @ [digit_char (n mod 10)])"

declare str_nat.simps [simp del]

definition str_int :: "int \<Rightarrow> string" where
  "str_int i = (if i < 0 then CHR ''-'' # str_nat (nat (- i)) else str_nat (nat i))"

text \<open>\<open>int(x)\<close> of a Python float truncates towards zero.\<close>

definition py_int :: "real \<Rightarrow> int" where
  "py_int x = (if 0 \<le> x then \<lfloor>x\<rfloor> else \<lceil>x\<rceil>)"




section \<open>Actions (\<open>actions/action.py\<close>)\<close>

datatype ActionType = MOVE | CLICK | TYPE' | PRESS | SCROLL | DRAG | WAIT | SCREENSHOT

text \<open>The \<open>name\<close> attribute of an enum member.\<close>

fun name :: "ActionType \<Rightarrow> string" where
  "name MOVE = ''MOVE''"
| "name CLICK = ''CLICK''"
| "name TYPE' = ''TYPE''"
| "name PRESS = ''PRESS''"
| "name SCROLL = ''SCROLL''"
| "name DRAG = ''DRAG''"
| "name WAIT = ''WAIT''"
| "name SCREENSHOT = ''SCREENSHOT''"

text \<open>\<open>ActionType[s]\<close>: the member of that name; \<open>None\<close> stands for the \<open>KeyError\<close>.\<close>

definition ActionType_getitem :: "string \<Rightarrow> ActionType option" where
  "ActionType_getitem s =
     (if s = ''MOVE'' then Some MOVE
      else if s = ''CLICK'' then Some CLICK
      else if s = ''TYPE'' then Some TYPE'
      else if s = ''PRESS'' then Some PRESS
      else if s = ''SCROLL'' then Some SCROLL
      else if s = ''DRAG'' then Some DRAG
      else if s = ''WAIT'' then Some WAIT
      else if s = ''SCREENSHOT'' then Some SCREENSHOT
      else None)"

text \<open>
  \<open>ActionData\<close>. \<open>scroll_info\<close> is the one dictionary whose values the code computes with
  (\<open>dx\<close> and \<open>dy\<close> are added), so its values are integers.
\<close>

record ActionData =
  action_type :: ActionType
  timestamp :: real
  element_info :: "pydict option"
  coordinates :: "(int \<times> int) option"
  text_val :: "string option"
  key_info :: "pydict option"
  scroll_info :: "(string \<rightharpoonup> int) option"
  metadata :: pydict

text \<open>
  The dictionary of \<open>to_dict\<close> and \<open>create_from_dict\<close>, at the keys the code writes and
  reads, each with the type the action schema gives it. \<open>None\<close> is what \<open>.get(key)\<close>
  returns for a key that is absent or holds \<open>None\<close>; for \<open>timestamp\<close> and \<open>metadata\<close>,
  which are read with a default, \<open>None\<close> is the absent key.
\<close>

record action_dict =
  d_action_type :: "string option"
  d_timestamp :: "real option"
  d_element_info :: "pydict option"
  d_coordinates :: "(int \<times> int) option"
  d_text :: "string option"
  d_key_info :: "pydict option"
  d_scroll_info :: "(string \<rightharpoonup> int) option"
  d_metadata :: "pydict option"
  d_action_id :: "string option"
  d_class_name :: "string option"

definition ActionData_to_dict :: "ActionData \<Rightarrow> action_dict" where
  "ActionData_to_dict d =
     \<lparr> d_action_type = Some (name (action_type d)),
       d_timestamp = Some (timestamp d),
       d_element_info = element_info d,
       d_coordinates = coordinates d,
       d_text = text_val d,
       d_key_info = key_info d,
       d_scroll_info = scroll_info d,
       d_metadata = Some (metadata d),
       d_action_id = None,
       d_class_name = None \<rparr>"

text \<open>The four concrete subclasses of \<open>Action\<close>, and the kind each constructor insists on.\<close>

datatype action_class = MoveAction | ClickAction | TypeAction | ScrollAction

fun class_kind :: "action_class \<Rightarrow> ActionType" where
  "class_kind MoveAction = MOVE"
| "class_kind ClickAction = CLICK"
| "class_kind TypeAction = TYPE'"
| "class_kind ScrollAction = SCROLL"

fun class_name :: "action_class \<Rightarrow> string" where
  "class_name MoveAction = ''MoveAction''"
| "class_name ClickAction = ''ClickAction''"
| "class_name TypeAction = ''TypeAction''"
| "class_name ScrollAction = ''ScrollAction''"

record Action =
  a_class :: action_class
  data :: ActionData
  action_id :: string

text \<open>
  \<open>Action.__init__\<close>: the id is the kind's name and the wall clock \<open>time.time()\<close> in
  microseconds. \<open>now\<close> is that clock reading.
\<close>

definition make_action_id :: "real \<Rightarrow> ActionData \<Rightarrow> string" where
  "make_action_id now d = name (action_type d) @ ''_'' @ str_int (py_int (now * 1000000))"

text \<open>
  \<open>cls(action_data)\<close>: the base initialiser, then the subclass's check of the kind.
\<close>

definition new_action :: "action_class \<Rightarrow> real \<Rightarrow> ActionData \<Rightarrow> py_error + Action" where
  "new_action cls now d =
     (if action_type d \<noteq> class_kind cls
      then Inl (ValueError (''ActionData must be of type '' @ name (class_kind cls)))
      else Inr \<lparr> a_class = cls, data = d, action_id = make_action_id now d \<rparr>)"

definition Action_to_dict :: "Action \<Rightarrow> action_dict" where
  "Action_to_dict a =
     (ActionData_to_dict (data a))
       \<lparr> d_action_id := Some (action_id a), d_class_name := Some (class_name (a_class a)) \<rparr>"







text \<open>
  \<open>ActionFactory\<close>. The registry \<open>_action_classes\<close> is class state that
  \<open>register_action_class\<close> may extend, so the operations take it as an argument;
  \<open>action_classes\<close> is its value as the module defines it.
\<close>

definition action_classes :: "ActionType \<rightharpoonup> action_class" where
  "action_classes = [MOVE \<mapsto> MoveAction, CLICK \<mapsto> ClickAction, TYPE' \<mapsto> TypeAction,
                     SCROLL \<mapsto> ScrollAction]"

definition create_action ::
  "(ActionType \<rightharpoonup> action_class) \<Rightarrow> real \<Rightarrow> ActionData \<Rightarrow> py_error + Action" where
  "create_action reg now d =
     (case reg (action_type d) of
        None \<Rightarrow> Inl (ValueError (''Unknown action type: ActionType.'' @ name (action_type d)))
      | Some cls \<Rightarrow> new_action cls now d)"

definition register_action_class ::
  "(ActionType \<rightharpoonup> action_class) \<Rightarrow> ActionType \<Rightarrow> action_class \<Rightarrow> (ActionType \<rightharpoonup> action_class)" where
  "register_action_class reg t cls = reg(t \<mapsto> cls)"

text \<open>
  \<open>create_from_dict\<close>. The clock is read twice: \<open>now0\<close> is the default of the timestamp
  (evaluated whether or not the key is there), \<open>now\<close> the reading of the constructor.
\<close>

definition create_from_dict ::
  "(ActionType \<rightharpoonup> action_class) \<Rightarrow> real \<Rightarrow> real \<Rightarrow> action_dict \<Rightarrow> py_error + Action" where
  "create_from_dict reg now0 now ad =
     (case d_action_type ad of
        None \<Rightarrow> Inl (ValueError ''Missing action_type in action dictionary'')
      | Some s \<Rightarrow>
          if s = [] then Inl (ValueError ''Missing action_type in action dictionary'')
          else (case ActionType_getitem s of
                  None \<Rightarrow> Inl (ValueError (''Invalid action_type: '' @ s))
                | Some t \<Rightarrow>
                    create_action reg now
                      \<lparr> action_type = t,
                        timestamp = (case d_timestamp ad of None \<Rightarrow> now0 | Some ts \<Rightarrow> ts),
                        element_info = d_element_info ad,
                        coordinates = d_coordinates ad,
                        text_val = d_text ad,
                        key_info = d_key_info ad,
                        scroll_info = d_scroll_info ad,
                        metadata = (case d_metadata ad of None \<Rightarrow> Map.empty | Some m \<Rightarrow> m) \<rparr>))"

section \<open>Events and the event bus (\<open>events.py\<close>)\<close>

datatype EventType =
    RECORDING_STARTED | RECORDING_STOPPED | RECORDING_PAUSED | RECORDING_RESUMED
  | MOUSE_MOVED | MOUSE_CLICKED | KEY_PRESSED | SCROLL_EVENT
  | WINDOW_CHANGED | APP_SWITCHED | SCREEN_CHANGED
  | EVENT_PROCESSED | BATCH_COMPLETED | ERROR_OCCURRED
  | FILE_CREATED | FILE_SAVED | FILE_DELETED
  | A11Y_TREE_UPDATED | ELEMENT_FOCUSED

fun event_type_name :: "EventType \<Rightarrow> string" where
  "event_type_name RECORDING_STARTED = ''RECORDING_STARTED''"
| "event_type_name RECORDING_STOPPED = ''RECORDING_STOPPED''"
| "event_type_name RECORDING_PAUSED = ''RECORDING_PAUSED''"
| "event_type_name RECORDING_RESUMED = ''RECORDING_RESUMED''"
| "event_type_name MOUSE_MOVED = ''MOUSE_MOVED''"
| "event_type_name MOUSE_CLICKED = ''MOUSE_CLICKED''"
| "event_type_name KEY_PRESSED = ''KEY_PRESSED''"
| "event_type_name SCROLL_EVENT = ''SCROLL_EVENT''"
| "event_type_name WINDOW_CHANGED = ''WINDOW_CHANGED''"
| "event_type_name APP_SWITCHED = ''APP_SWITCHED''"
| "event_type_name SCREEN_CHANGED = ''SCREEN_CHANGED''"
| "event_type_name EVENT_PROCESSED = ''EVENT_PROCESSED''"
| "event_type_name BATCH_COMPLETED = ''BATCH_COMPLETED''"
| "event_type_name ERROR_OCCURRED = ''ERROR_OCCURRED''"
| "event_type_name FILE_CREATED = ''FILE_CREATED''"
| "event_type_name FILE_SAVED = ''FILE_SAVED''"
| "event_type_name FILE_DELETED = ''FILE_DELETED''"
| "event_type_name A11Y_TREE_UPDATED = ''A11Y_TREE_UPDATED''"
| "event_type_name ELEMENT_FOCUSED = ''ELEMENT_FOCUSED''"

text \<open>
  The dataclass \<open>Event\<close>. The payload of the error event that \<open>publish\<close> builds holds
  the event being published, so the values of \<open>data\<close> are plain values or events.
\<close>

datatype Event =
  Event (event_type: EventType) (event_timestamp: real) (source: string)
        (event_data: "string \<Rightarrow> evalue option") (event_id: "string option")
and evalue = Plain anyval | Nested Event

text \<open>
  \<open>Event.__post_init__\<close>: an event built without an id gets the name of its type and the
  wall clock in microseconds; \<open>now\<close> is the clock reading.
\<close>

definition make_event_id :: "real \<Rightarrow> EventType \<Rightarrow> string" where
  "make_event_id now t = event_type_name t @ ''_'' @ str_int (py_int (now * 1000000))"

definition post_init :: "real \<Rightarrow> Event \<Rightarrow> Event" where
  "post_init now e =
     (case event_id e of
        None \<Rightarrow> Event (event_type e) (event_timestamp e) (source e) (event_data e)
                  (Some (make_event_id now (event_type e)))
      | Some i \<Rightarrow> e)"

text \<open>
  An \<open>EventHandler\<close> object. \<open>hid\<close> is the object's identity (what \<open>list.remove\<close>
  compares), \<open>hclass\<close> the name of its class. \<open>handle_event\<close> gives what the call does as
  far as the bus can tell: \<open>None\<close> when it returns, \<open>Some msg\<close> when it raises an exception
  whose \<open>str\<close> is \<open>msg\<close>. Handlers are taken not to call back into the bus.
\<close>

record EventHandler =
  hid :: nat
  hclass :: string
  can_handle :: "EventType \<Rightarrow> bool"
  handle_event :: "Event \<Rightarrow> string option"

definition FunctionEventHandler ::
  "nat \<Rightarrow> (Event \<Rightarrow> string option) \<Rightarrow> EventType list \<Rightarrow> EventHandler" where
  "FunctionEventHandler i handler_func event_types =
     \<lparr> hid = i, hclass = ''FunctionEventHandler'',
       can_handle = (\<lambda>t. t \<in> set event_types),
       handle_event = handler_func \<rparr>"

record EventBus =
  handlers :: "EventType \<rightharpoonup> EventHandler list"
  global_handlers :: "EventHandler list"
  event_history :: "Event list"
  max_history :: nat

definition EventBus_init :: EventBus where
  "EventBus_init =
     \<lparr> handlers = Map.empty, global_handlers = [], event_history = [], max_history = 1000 \<rparr>"

text \<open>
  \<open>_handlers\<close> is a \<open>defaultdict(list)\<close>: indexing a missing key stores an empty list,
  while \<open>_handlers.get(t, [])\<close> reads without storing.
\<close>

definition handlers_get :: "EventBus \<Rightarrow> EventType \<Rightarrow> EventHandler list" where
  "handlers_get b t = (case handlers b t of None \<Rightarrow> [] | Some hs \<Rightarrow> hs)"

definition subscribe :: "EventBus \<Rightarrow> EventType \<Rightarrow> EventHandler \<Rightarrow> EventBus" where
  "subscribe b t h = b\<lparr> handlers := (handlers b)(t \<mapsto> handlers_get b t @ [h]) \<rparr>"

definition subscribe_function ::
  "EventBus \<Rightarrow> nat \<Rightarrow> EventType list \<Rightarrow> (Event \<Rightarrow> string option) \<Rightarrow> EventBus" where
  "subscribe_function b i event_types handler_func =
     fold (\<lambda>t b'. subscribe b' t (FunctionEventHandler i handler_func event_types)) event_types b"

definition subscribe_global :: "EventBus \<Rightarrow> EventHandler \<Rightarrow> EventBus" where
  "subscribe_global b h = b\<lparr> global_handlers := global_handlers b @ [h] \<rparr>"

text \<open>\<open>list.remove(h)\<close>: drops the first occurrence; a missing one (\<open>ValueError\<close>) is passed over.\<close>

fun remove_handler :: "EventHandler \<Rightarrow> EventHandler list \<Rightarrow> EventHandler list" where
  "remove_handler h [] = []"
| "remove_handler h (x # xs) = (if hid x = hid h then xs else x # remove_handler h xs)"

definition unsubscribe :: "EventBus \<Rightarrow> EventType \<Rightarrow> EventHandler \<Rightarrow> EventBus" where
  "unsubscribe b t h =
     (case handlers b t of
        None \<Rightarrow> b
      | Some hs \<Rightarrow> b\<lparr> handlers := (handlers b)(t \<mapsto> remove_handler h hs) \<rparr>)"

definition unsubscribe_global :: "EventBus \<Rightarrow> EventHandler \<Rightarrow> EventBus" where
  "unsubscribe_global b h = b\<lparr> global_handlers := remove_handler h (global_handlers b) \<rparr>"

text \<open>
  A call of \<open>handle_event\<close>, as the bus makes it: the handler's identity and the event it
  is given. \<open>publish\<close> returns the calls it made, in order.
\<close>

type_synonym call = "nat \<times> Event"

text \<open>
  \<open>_publish_error_event\<close>: the handlers stored for \<open>ERROR_OCCURRED\<close> that accept it are
  called in turn; the first one that raises ends the loop (the \<open>try\<close> encloses it).
\<close>

fun error_loop :: "Event \<Rightarrow> EventHandler list \<Rightarrow> call list" where
  "error_loop ev [] = []"
| "error_loop ev (h # hs) =
     (if can_handle h ERROR_OCCURRED
      then (hid h, ev) # (case handle_event h ev of None \<Rightarrow> error_loop ev hs | Some msg \<Rightarrow> [])
      else error_loop ev hs)"

definition publish_error_event :: "EventBus \<Rightarrow> Event \<Rightarrow> call list" where
  "publish_error_event b error_event =
     error_loop error_event (handlers_get b ERROR_OCCURRED)"

text \<open>
  The loop of \<open>publish\<close> over the handlers. \<open>clk\<close> gives the readings of \<open>time.time()\<close>
  during the call and \<open>n\<close> counts the readings taken so far: a handler that raises costs
  two, the error event's timestamp and its id.
\<close>

fun dispatch :: "(nat \<Rightarrow> real) \<Rightarrow> nat \<Rightarrow> EventBus \<Rightarrow> Event \<Rightarrow> EventHandler list \<Rightarrow> call list" where
  "dispatch clk n b event [] = []"
| "dispatch clk n b event (h # hs) =
     (if can_handle h (event_type event) then
        (hid h, event) #
          (case handle_event h event of
             None \<Rightarrow> dispatch clk n b event hs
           | Some msg \<Rightarrow>
               (let error_event =
                      post_init (clk (n + 1))
                        (Event ERROR_OCCURRED (clk n) ''EventBus''
                           [''original_event'' \<mapsto> Nested event,
                            ''handler'' \<mapsto> Plain (AStr (hclass h)),
                            ''error'' \<mapsto> Plain (AStr msg)]
                           None)
                in (if event_type event \<noteq> ERROR_OCCURRED
                    then publish_error_event b error_event else [])
                   @ dispatch clk (n + 2) b event hs))
      else dispatch clk n b event hs)"

text \<open>
  \<open>publish\<close>. \<open>self._handlers.get(t, [])\<close> returns the stored list itself when the key is
  there, so \<open>handlers.extend(self._global_handlers)\<close> writes the global handlers into the
  registry; without the key the list is a fresh one and the registry is untouched.
\<close>

definition publish :: "(nat \<Rightarrow> real) \<Rightarrow> EventBus \<Rightarrow> Event \<Rightarrow> EventBus \<times> call list" where
  "publish clk b event =
     (let appended = event_history b @ [event];
          history = (if length appended > max_history b then drop 1 appended else appended);
          hs = handlers_get b (event_type event) @ global_handlers b;
          registry = (case handlers b (event_type event) of
                        None \<Rightarrow> handlers b
                      | Some l \<Rightarrow> (handlers b)(event_type event \<mapsto> hs));
          b' = b\<lparr> handlers := registry, event_history := history \<rparr>
      in (b', dispatch clk 0 b' event hs))"

text \<open>
  \<open>create_event\<close>: two clock readings build the event (timestamp, id), the rest belong to
  \<open>publish\<close>. \<open>data or {}\<close> is the dictionary itself or an empty one.
\<close>

definition created_event ::
  "(nat \<Rightarrow> real) \<Rightarrow> EventType \<Rightarrow> string \<Rightarrow> (string \<Rightarrow> evalue option) option \<Rightarrow> Event" where
  "created_event clk t src d =
     post_init (clk 1) (Event t (clk 0) src (case d of None \<Rightarrow> Map.empty | Some m \<Rightarrow> m) None)"

definition create_event ::
  "(nat \<Rightarrow> real) \<Rightarrow> EventBus \<Rightarrow> EventType \<Rightarrow> string \<Rightarrow> (string \<Rightarrow> evalue option) option
     \<Rightarrow> (EventBus \<times> call list) \<times> Event" where
  "create_event clk b t src d =
     (let event = created_event clk t src d
      in (publish (\<lambda>n. clk (n + 2)) b event, event))"

text \<open>\<open>xs[start:]\<close> with Python's rule for a negative or too large \<open>start\<close>.\<close>

definition slice_from :: "int \<Rightarrow> 'a list \<Rightarrow> 'a list" where
  "slice_from start xs =
     (if start < 0 then drop (nat (max 0 (int (length xs) + start))) xs
      else drop (nat start) xs)"

definition get_event_history :: "EventBus \<Rightarrow> EventType option \<Rightarrow> int \<Rightarrow> Event list" where
  "get_event_history b t limit =
     (let events = slice_from (- limit) (event_history b)
      in case t of None \<Rightarrow> events | Some ty \<Rightarrow> filter (\<lambda>e. event_type e = ty) events)"

definition clear_history :: "EventBus \<Rightarrow> EventBus" where
  "clear_history b = b\<lparr> event_history := [] \<rparr>"

section \<open>The recording session (\<open>recording/session.py\<close>)\<close>

datatype SessionState = IDLE | PREPARING | RECORDING | PAUSED | STOPPING | STOPPED | ERROR

record SessionMetadata =
  session_id :: string
  start_time :: "real option"
  end_time :: "real option"
  task_name :: "string option"
  task_description :: "string option"
  user_id :: "string option"
  screen_resolution :: "(int \<times> int) option"
  platform :: "string option"
  version :: string
  tags :: "string list"
  custom_data :: pydict

definition SessionMetadata_init :: "string \<Rightarrow> SessionMetadata" where
  "SessionMetadata_init sid =
     \<lparr> session_id = sid, start_time = None, end_time = None, task_name = None,
       task_description = None, user_id = None, screen_resolution = None, platform = None,
       version = ''2.0'', tags = [], custom_data = Map.empty \<rparr>"

text \<open>
  \<open>RecordingSession\<close>. An observer is a callable the session only ever calls and whose
  exceptions it swallows; it is modelled by its identity, and \<open>notified\<close> is the log of
  the calls made, \<open>(observer, old_state, new_state)\<close>, oldest first.
\<close>

record RecordingSession =
  rs_session_id :: string
  recording_path :: string
  state :: SessionState
  rs_metadata :: SessionMetadata
  state_history :: "(SessionState \<times> real) list"
  event_count :: int
  natural_scrolling :: bool
  generate_window_a11y :: bool
  generate_element_a11y :: bool
  observers :: "nat list"
  notified :: "(nat \<times> SessionState \<times> SessionState) list"

text \<open>
  \<open>__init__\<close>: \<open>uuid\<close> is the string \<open>str(uuid.uuid4())\<close> would give; it is used when no
  (or an empty) session id is passed.
\<close>

definition RecordingSession_init :: "string \<Rightarrow> string option \<Rightarrow> string option \<Rightarrow> RecordingSession" where
  "RecordingSession_init uuid sid path =
     (let sid' = (case sid of None \<Rightarrow> uuid | Some i \<Rightarrow> (if i \<noteq> [] then i else uuid))
      in \<lparr> rs_session_id = sid',
           recording_path = (case path of None \<Rightarrow> ''recording_'' @ sid' | Some p \<Rightarrow> p),
           state = IDLE,
           rs_metadata = SessionMetadata_init sid',
           state_history = [],
           event_count = 0,
           natural_scrolling = True,
           generate_window_a11y = False,
           generate_element_a11y = True,
           observers = [],
           notified = [] \<rparr>)"

definition add_observer :: "RecordingSession \<Rightarrow> nat \<Rightarrow> RecordingSession" where
  "add_observer s ob = s\<lparr> observers := observers s @ [ob] \<rparr>"

definition remove_observer :: "RecordingSession \<Rightarrow> nat \<Rightarrow> RecordingSession" where
  "remove_observer s ob = (if ob \<in> set (observers s) then s\<lparr> observers := remove1 ob (observers s) \<rparr> else s)"

definition notify_state_change ::
  "RecordingSession \<Rightarrow> SessionState \<Rightarrow> SessionState \<Rightarrow> RecordingSession" where
  "notify_state_change s old_state new_state =
     s\<lparr> notified := notified s @ map (\<lambda>ob. (ob, old_state, new_state)) (observers s) \<rparr>"

text \<open>\<open>set_state\<close>; \<open>now\<close> is its reading of \<open>time.time()\<close>.\<close>

definition set_state :: "real \<Rightarrow> RecordingSession \<Rightarrow> SessionState \<Rightarrow> RecordingSession" where
  "set_state now s new_state =
     (let old_state = state s;
          s1 = s\<lparr> state := new_state, state_history := state_history s @ [(new_state, now)] \<rparr>;
          s2 = (if new_state = RECORDING \<and> old_state \<noteq> PAUSED
                then s1\<lparr> rs_metadata := (rs_metadata s1)\<lparr> start_time := Some now \<rparr> \<rparr>
                else if new_state = STOPPED \<and> end_time (rs_metadata s1) = None
                then s1\<lparr> rs_metadata := (rs_metadata s1)\<lparr> end_time := Some now \<rparr> \<rparr>
                else s1)
      in notify_state_change s2 old_state new_state)"

fun valid_transitions :: "SessionState \<Rightarrow> SessionState list" where
  "valid_transitions IDLE = [PREPARING]"
| "valid_transitions PREPARING = [RECORDING, ERROR]"
| "valid_transitions RECORDING = [PAUSED, STOPPING]"
| "valid_transitions PAUSED = [RECORDING, STOPPING]"
| "valid_transitions STOPPING = [STOPPED, ERROR]"
| "valid_transitions STOPPED = [IDLE]"
| "valid_transitions ERROR = [IDLE, STOPPED]"

definition can_transition_to :: "RecordingSession \<Rightarrow> SessionState \<Rightarrow> bool" where
  "can_transition_to s new_state = (new_state \<in> set (valid_transitions (state s)))"

text \<open>
  What \<open>prepare\<close> meets outside the session: whether \<open>mkdir\<close> and
  \<open>get_platform_provider()\<close> succeed, and what the provider's two queries return
  (\<open>None\<close> when the call raises).
\<close>

record prepare_env =
  mkdir_ok :: bool
  provider_ok :: bool
  platform_name :: "string option"
  screen_size :: "(int \<times> int) option"

definition prepare :: "prepare_env \<Rightarrow> real \<Rightarrow> RecordingSession \<Rightarrow> bool \<times> RecordingSession" where
  "prepare env now s =
     (if \<not> can_transition_to s PREPARING then (False, s)
      else if \<not> mkdir_ok env \<or> \<not> provider_ok env then (False, set_state now s ERROR)
      else (case platform_name env of
              None \<Rightarrow> (False, set_state now s ERROR)
            | Some p \<Rightarrow>
                (let s1 = s\<lparr> rs_metadata := (rs_metadata s)\<lparr> platform := Some p \<rparr> \<rparr>
                 in case screen_size env of
                      None \<Rightarrow> (False, set_state now s1 ERROR)
                    | Some r \<Rightarrow>
                        (True, set_state now
                                 (s1\<lparr> rs_metadata := (rs_metadata s1)\<lparr> screen_resolution := Some r \<rparr> \<rparr>)
                                 PREPARING))))"

definition start :: "real \<Rightarrow> RecordingSession \<Rightarrow> bool \<times> RecordingSession" where
  "start now s =
     (if \<not> can_transition_to s RECORDING then (False, s) else (True, set_state now s RECORDING))"

definition pause :: "real \<Rightarrow> RecordingSession \<Rightarrow> bool \<times> RecordingSession" where
  "pause now s =
     (if \<not> can_transition_to s PAUSED then (False, s) else (True, set_state now s PAUSED))"

definition resume :: "real \<Rightarrow> RecordingSession \<Rightarrow> bool \<times> RecordingSession" where
  "resume now s =
     (if \<not> can_transition_to s RECORDING then (False, s) else (True, set_state now s RECORDING))"

definition stop :: "real \<Rightarrow> RecordingSession \<Rightarrow> bool \<times> RecordingSession" where
  "stop now s =
     (if \<not> can_transition_to s STOPPING then (False, s) else (True, set_state now s STOPPING))"

definition complete_session :: "real \<Rightarrow> RecordingSession \<Rightarrow> bool \<times> RecordingSession" where
  "complete_session now s =
     (if \<not> can_transition_to s STOPPED then (False, s) else (True, set_state now s STOPPED))"

definition error :: "real \<Rightarrow> RecordingSession \<Rightarrow> string \<Rightarrow> RecordingSession" where
  "error now s error_message =
     set_state now
       (s\<lparr> rs_metadata := (rs_metadata s)
             \<lparr> custom_data := (custom_data (rs_metadata s))(''error_message'' \<mapsto> AStr error_message) \<rparr> \<rparr>)
       ERROR"

definition reset :: "real \<Rightarrow> RecordingSession \<Rightarrow> bool \<times> RecordingSession" where
  "reset now s =
     (if \<not> can_transition_to s IDLE then (False, s)
      else (True, set_state now
                    (s\<lparr> rs_metadata := SessionMetadata_init (rs_session_id s),
                        state_history := [], event_count := 0 \<rparr>)
                    IDLE))"

definition increment_event_count :: "RecordingSession \<Rightarrow> RecordingSession" where
  "increment_event_count s = s\<lparr> event_count := event_count s + 1 \<rparr>"

section \<open>Notions the properties are stated with\<close>


text \<open>The \<open>n\<close> most recent entries of a list kept oldest first (all of it when shorter).\<close>

definition most_recent :: "nat \<Rightarrow> 'a list \<Rightarrow> 'a list" where
  "most_recent n xs = drop (length xs - n) xs"

text \<open>The handlers that a list of calls gave the event \<open>e\<close> itself to, in call order.\<close>

definition invoked_with :: "Event \<Rightarrow> call list \<Rightarrow> nat list" where
  "invoked_with e calls = map fst (filter (\<lambda>c. snd c = e) calls)"

text \<open>
  The operations that change a bus, as a caller issues them. \<open>Publish\<close> and \<open>CreateEvent\<close>
  carry the clock readings their call meets.
\<close>

datatype bus_op =
    Subscribe EventType EventHandler
  | SubscribeFunction nat "EventType list" "Event \<Rightarrow> string option"
  | SubscribeGlobal EventHandler
  | Unsubscribe EventType EventHandler
  | UnsubscribeGlobal EventHandler
  | Publish "nat \<Rightarrow> real" Event
  | CreateEvent "nat \<Rightarrow> real" EventType string "(string \<Rightarrow> evalue option) option"
  | ClearHistory

fun exec_op :: "bus_op \<Rightarrow> EventBus \<Rightarrow> EventBus" where
  "exec_op (Subscribe t h) b = subscribe b t h"
| "exec_op (SubscribeFunction i ts f) b = subscribe_function b i ts f"
| "exec_op (SubscribeGlobal h) b = subscribe_global b h"
| "exec_op (Unsubscribe t h) b = unsubscribe b t h"
| "exec_op (UnsubscribeGlobal h) b = unsubscribe_global b h"
| "exec_op (Publish clk e) b = fst (publish clk b e)"
| "exec_op (CreateEvent clk t src d) b = fst (fst (create_event clk b t src d))"
| "exec_op ClearHistory b = clear_history b"

definition run_ops :: "bus_op list \<Rightarrow> EventBus \<Rightarrow> EventBus" where
  "run_ops ops b = fold exec_op ops b"


text \<open>
  What a caller has registered, read off the operations alone: the handlers registered
  for a type, and the global ones, each in registration order and once per registration
  that has not been withdrawn.
\<close>

fun register_step :: "EventType \<Rightarrow> bus_op \<Rightarrow> EventHandler list \<Rightarrow> EventHandler list" where
  "register_step t (Subscribe t' h) hs = (if t' = t then hs @ [h] else hs)"
| "register_step t (SubscribeFunction i ts f) hs =
     hs @ map (\<lambda>_. FunctionEventHandler i f ts) (filter (\<lambda>t'. t' = t) ts)"
| "register_step t (Unsubscribe t' h) hs = (if t' = t then remove_handler h hs else hs)"
| "register_step t _ hs = hs"

definition registered_for :: "EventType \<Rightarrow> bus_op list \<Rightarrow> EventHandler list" where
  "registered_for t ops = fold (register_step t) ops []"

fun register_global_step :: "bus_op \<Rightarrow> EventHandler list \<Rightarrow> EventHandler list" where
  "register_global_step (SubscribeGlobal h) hs = hs @ [h]"
| "register_global_step (UnsubscribeGlobal h) hs = remove_handler h hs"
| "register_global_step _ hs = hs"

definition registered_global :: "bus_op list \<Rightarrow> EventHandler list" where
  "registered_global ops = fold register_global_step ops []"

text \<open>
  The events published since the history was last cleared, oldest first, read off the
  operations alone.
\<close>

fun publish_step :: "bus_op \<Rightarrow> Event list \<Rightarrow> Event list" where
  "publish_step (Publish clk e) es = es @ [e]"
| "publish_step (CreateEvent clk t src d) es = es @ [created_event clk t src d]"
| "publish_step ClearHistory es = []"
| "publish_step _ es = es"

definition published :: "bus_op list \<Rightarrow> Event list" where
  "published ops = fold publish_step ops []"

section \<open>Properties of the action model\<close>

subsection \<open>Auxiliary facts\<close>

lemma ActionType_getitem_name: "ActionType_getitem (name t) = Some t"
  by (cases t) (simp_all add: ActionType_getitem_def)

lemma name_not_empty: "name t \<noteq> []"
  by (cases t) simp_all




lemma action_data_rebuilt:
  "\<lparr> action_type = action_type d, timestamp = timestamp d, element_info = element_info d,
     coordinates = coordinates d, text_val = text_val d, key_info = key_info d,
     scroll_info = scroll_info d, metadata = metadata d \<rparr> = d"
  by (cases d) simp

lemmas eval_id = make_action_id_def str_int_def py_int_def str_nat.simps digit_char_def

subsection \<open>The factory's registry\<close>

text \<open>
  Claim C10. The registry the module defines has constructors for \<open>MOVE\<close>, \<open>CLICK\<close>,
  \<open>TYPE\<close> and \<open>SCROLL\<close> only. For an \<open>ActionData\<close> whose kind is \<open>PRESS\<close>, \<open>DRAG\<close>,
  \<open>WAIT\<close> or \<open>SCREENSHOT\<close>, \<open>create_action\<close> fails with the error for an unknown action
  type, and so does \<open>create_from_dict\<close> on any dictionary that carries the name of that kind.
\<close>

theorem factory_rejects_unregistered_kinds:
  assumes "action_type d \<in> {PRESS, DRAG, WAIT, SCREENSHOT}"
  shows "dom action_classes = {MOVE, CLICK, TYPE', SCROLL}
       \<and> create_action action_classes now d
           = Inl (ValueError (''Unknown action type: ActionType.'' @ name (action_type d)))
       \<and> create_from_dict action_classes now0 now (ad\<lparr> d_action_type := Some (name (action_type d)) \<rparr>)
           = Inl (ValueError (''Unknown action type: ActionType.'' @ name (action_type d)))"
proof -
  have registry: "dom action_classes = {MOVE, CLICK, TYPE', SCROLL}"
    by (auto simp: action_classes_def split: if_splits)
  have none: "action_classes (action_type d) = None"
    using assms by (auto simp: action_classes_def)
  then have direct: "create_action action_classes now d
           = Inl (ValueError (''Unknown action type: ActionType.'' @ name (action_type d)))"
    by (simp add: create_action_def)
  from none have decoded: "create_from_dict action_classes now0 now (ad\<lparr> d_action_type := Some (name (action_type d)) \<rparr>)
           = Inl (ValueError (''Unknown action type: ActionType.'' @ name (action_type d)))"
    by (simp add: create_from_dict_def create_action_def ActionType_getitem_name name_not_empty)
  from registry direct decoded show ?thesis by simp
qed

theorem factory_rejects_unregistered_kinds_witness:
  "create_action action_classes 7
     \<lparr> action_type = PRESS, timestamp = 1, element_info = None, coordinates = None,
       text_val = None, key_info = Some [''key'' \<mapsto> AStr ''a''], scroll_info = None,
       metadata = Map.empty \<rparr>
     = Inl (ValueError ''Unknown action type: ActionType.PRESS'')
   \<and> create_from_dict action_classes 7 7
     \<lparr> d_action_type = Some ''PRESS'', d_timestamp = Some 1, d_element_info = None,
       d_coordinates = None, d_text = None, d_key_info = Some [''key'' \<mapsto> AStr ''a''],
       d_scroll_info = None, d_metadata = Some Map.empty, d_action_id = Some ''PRESS_7000000'',
       d_class_name = None \<rparr>
     = Inl (ValueError ''Unknown action type: ActionType.PRESS'')"
  using factory_rejects_unregistered_kinds
    [where d = "\<lparr> action_type = PRESS, timestamp = 1, element_info = None, coordinates = None,
           text_val = None, key_info = Some [''key'' \<mapsto> AStr ''a''], scroll_info = None,
           metadata = Map.empty \<rparr>" and now = 7 and ?now0.0 = 7 and ad =
        "\<lparr> d_action_type = Some ''PRESS'', d_timestamp = Some 1, d_element_info = None,
       d_coordinates = None, d_text = None, d_key_info = Some [''key'' \<mapsto> AStr ''a''],
       d_scroll_info = None, d_metadata = Some Map.empty, d_action_id = Some ''PRESS_7000000'',
       d_class_name = None \<rparr>"]
  by simp

subsection \<open>Serialisation round trip\<close>

text \<open>
  Claim C6. For an action \<open>a\<close> that the factory constructs (with whatever registry is in
  force), \<open>create_from_dict (to_dict a)\<close> succeeds on the same registry and gives an action
  of the same class whose kind, timestamp, coordinates, text, scroll_info and metadata are
  those of \<open>a\<close>; indeed its whole \<open>ActionData\<close> is. Nothing is said of the id, which is
  derived afresh from the clock.
\<close>

theorem from_dict_to_dict_roundtrip:
  assumes "create_action reg now1 d = Inr a"
  shows "\<exists>a'. create_from_dict reg now0 now (Action_to_dict a) = Inr a'
           \<and> a_class a' = a_class a
           \<and> action_type (data a') = action_type (data a)
           \<and> timestamp (data a') = timestamp (data a)
           \<and> coordinates (data a') = coordinates (data a)
           \<and> text_val (data a') = text_val (data a)
           \<and> scroll_info (data a') = scroll_info (data a)
           \<and> metadata (data a') = metadata (data a)
           \<and> data a' = data a"
proof -
  from assms obtain cls where cls: "reg (action_type d) = Some cls" and na: "new_action cls now1 d = Inr a"
    by (auto simp: create_action_def split: option.splits)
  from na have kind: "action_type d = class_kind cls" and a: "a_class a = cls" "data a = d"
    by (auto simp: new_action_def split: if_splits)
  have dict: "Action_to_dict a = (ActionData_to_dict d)\<lparr> d_action_id := Some (action_id a), d_class_name := Some (class_name cls) \<rparr>"
    by (simp add: Action_to_dict_def a)
  have "create_from_dict reg now0 now (Action_to_dict a) = create_action reg now d"
    by (simp add: dict create_from_dict_def ActionData_to_dict_def ActionType_getitem_name
        name_not_empty action_data_rebuilt)
  also have "\<dots> = new_action cls now d"
    by (simp add: create_action_def cls)
  also have "\<dots> = Inr \<lparr> a_class = cls, data = d, action_id = make_action_id now d \<rparr>"
    by (simp add: new_action_def kind)
  finally show ?thesis
    by (simp add: a)
qed

theorem from_dict_to_dict_roundtrip_witness:
  "create_action action_classes 1
     \<lparr> action_type = SCROLL, timestamp = 0.3, element_info = None, coordinates = Some (110, 105),
       text_val = None, key_info = None, scroll_info = Some [''dx'' \<mapsto> 4, ''dy'' \<mapsto> 1],
       metadata = [''button'' \<mapsto> AStr ''left''] \<rparr>
     = Inr \<lparr> a_class = ScrollAction,
             data = \<lparr> action_type = SCROLL, timestamp = 0.3, element_info = None,
                      coordinates = Some (110, 105), text_val = None, key_info = None,
                      scroll_info = Some [''dx'' \<mapsto> 4, ''dy'' \<mapsto> 1],
                      metadata = [''button'' \<mapsto> AStr ''left''] \<rparr>,
             action_id = ''SCROLL_1000000'' \<rparr>
   \<and> (\<exists>a'. create_from_dict action_classes 2 3
          (Action_to_dict
             \<lparr> a_class = ScrollAction,
               data = \<lparr> action_type = SCROLL, timestamp = 0.3, element_info = None,
                        coordinates = Some (110, 105), text_val = None, key_info = None,
                        scroll_info = Some [''dx'' \<mapsto> 4, ''dy'' \<mapsto> 1],
                        metadata = [''button'' \<mapsto> AStr ''left''] \<rparr>,
               action_id = ''SCROLL_1000000'' \<rparr>) = Inr a'
        \<and> a_class a' = ScrollAction
        \<and> timestamp (data a') = 0.3
        \<and> coordinates (data a') = Some (110, 105)
        \<and> scroll_info (data a') = Some [''dx'' \<mapsto> 4, ''dy'' \<mapsto> 1]
        \<and> metadata (data a') = [''button'' \<mapsto> AStr ''left''])"
proof -
  have built: "create_action action_classes 1
     \<lparr> action_type = SCROLL, timestamp = 0.3, element_info = None, coordinates = Some (110, 105),
       text_val = None, key_info = None, scroll_info = Some [''dx'' \<mapsto> 4, ''dy'' \<mapsto> 1],
       metadata = [''button'' \<mapsto> AStr ''left''] \<rparr>
     = Inr \<lparr> a_class = ScrollAction,
             data = \<lparr> action_type = SCROLL, timestamp = 0.3, element_info = None,
                      coordinates = Some (110, 105), text_val = None, key_info = None,
                      scroll_info = Some [''dx'' \<mapsto> 4, ''dy'' \<mapsto> 1],
                      metadata = [''button'' \<mapsto> AStr ''left''] \<rparr>,
             action_id = ''SCROLL_1000000'' \<rparr>"
    by (simp add: create_action_def action_classes_def new_action_def eval_id)
  from from_dict_to_dict_roundtrip [OF built, of 2 3] built show ?thesis
    by auto
qed

subsection \<open>Merging scroll actions\<close>





subsection \<open>Merging type actions\<close>




subsection \<open>Identifiers\<close>





section \<open>Properties of the event bus\<close>

subsection \<open>The bounded history\<close>

lemma most_recent_snoc:
  assumes "0 < n"
  shows "(if length (most_recent n acc @ [e]) > n then drop 1 (most_recent n acc @ [e])
          else most_recent n acc @ [e]) = most_recent n (acc @ [e])"
proof (cases "length acc < n")
  case True
  then show ?thesis by (simp add: most_recent_def)
next
  case False
  with assms have "Suc (length acc) - n = Suc (length acc - n)" by simp
  with False assms show ?thesis
    by (simp add: most_recent_def drop_Suc tl_append drop_tl [symmetric] split: list.splits)
qed

lemma length_most_recent: "length (most_recent n xs) \<le> n"
  by (simp add: most_recent_def)

lemma publish_history:
  "event_history (fst (publish clk b e))
     = (if length (event_history b @ [e]) > max_history b then drop 1 (event_history b @ [e])
        else event_history b @ [e])"
  by (simp add: publish_def Let_def)

lemma publish_max_history: "max_history (fst (publish clk b e)) = max_history b"
  by (simp add: publish_def Let_def)

lemma subscribe_function_frame:
  "event_history (subscribe_function b i ts f) = event_history b
   \<and> max_history (subscribe_function b i ts f) = max_history b"
proof -
  have "event_history (fold (\<lambda>t b'. subscribe b' t h) xs b) = event_history b
      \<and> max_history (fold (\<lambda>t b'. subscribe b' t h) xs b) = max_history b" for h xs
    by (induction xs arbitrary: b) (simp_all add: subscribe_def)
  then show ?thesis by (simp add: subscribe_function_def)
qed

lemma exec_op_max_history: "max_history (exec_op op b) = max_history b"
  by (cases op)
     (simp_all add: subscribe_def subscribe_function_frame subscribe_global_def unsubscribe_def
        unsubscribe_global_def publish_max_history create_event_def clear_history_def Let_def
        split: option.splits)

lemma evict_step:
  assumes "0 < n" and "h = most_recent n acc"
  shows "(if length (h @ [e]) > n then drop 1 (h @ [e]) else h @ [e]) = most_recent n (acc @ [e])"
  unfolding assms(2) by (rule most_recent_snoc [OF assms(1)])

lemma exec_op_history:
  assumes "0 < max_history b" and "event_history b = most_recent (max_history b) acc"
  shows "event_history (exec_op op b) = most_recent (max_history b) (publish_step op acc)"
proof (cases op)
  case (Publish clk e)
  have "event_history (exec_op op b)
          = (if length (event_history b @ [e]) > max_history b then drop 1 (event_history b @ [e])
             else event_history b @ [e])"
    by (simp only: Publish exec_op.simps publish_history)
  also have "\<dots> = most_recent (max_history b) (acc @ [e])"
    by (rule evict_step [OF assms])
  finally show ?thesis by (simp add: Publish)
next
  case (CreateEvent clk t src d)
  have "event_history (exec_op op b)
          = (if length (event_history b @ [created_event clk t src d]) > max_history b
             then drop 1 (event_history b @ [created_event clk t src d])
             else event_history b @ [created_event clk t src d])"
    by (simp only: CreateEvent exec_op.simps create_event_def Let_def fst_conv publish_history)
  also have "\<dots> = most_recent (max_history b) (acc @ [created_event clk t src d])"
    by (rule evict_step [OF assms])
  finally show ?thesis by (simp add: CreateEvent)
next
  case ClearHistory
  then show ?thesis by (simp add: clear_history_def most_recent_def)
qed (use assms in \<open>simp_all add: subscribe_def subscribe_function_frame subscribe_global_def
       unsubscribe_def unsubscribe_global_def split: option.splits\<close>)

lemma fold_exec_op_history:
  assumes "0 < max_history b" and "event_history b = most_recent (max_history b) acc"
  shows "event_history (fold exec_op ops b) = most_recent (max_history b) (fold publish_step ops acc)"
  using assms
proof (induction ops arbitrary: b acc)
  case Nil
  then show ?case by simp
next
  case (Cons op ops)
  have "event_history (exec_op op b) = most_recent (max_history (exec_op op b)) (publish_step op acc)"
    using exec_op_history [OF Cons.prems] by (simp add: exec_op_max_history)
  moreover have "0 < max_history (exec_op op b)"
    using Cons.prems(1) by (simp add: exec_op_max_history)
  ultimately show ?case
    using Cons.IH [of "exec_op op b" "publish_step op acc"] by (simp add: exec_op_max_history)
qed

text \<open>
  Claim C9. After any sequence of bus operations on a new bus the history holds at most
  1000 events, and it is exactly the (up to) 1000 most recent of the events published
  since the history was last cleared, in publish order: \<open>publish\<close> appends the event and
  evicts the oldest entry when the capacity would be exceeded.
\<close>

theorem history_bounded_fifo:
  "length (event_history (run_ops ops EventBus_init)) \<le> 1000
   \<and> event_history (run_ops ops EventBus_init) = most_recent 1000 (published ops)
   \<and> event_history (fst (publish clk (run_ops ops EventBus_init) e))
       = most_recent 1000 (published ops @ [e])"
proof -
  have init: "0 < max_history EventBus_init"
    "event_history EventBus_init = most_recent (max_history EventBus_init) []"
    by (simp_all add: EventBus_init_def most_recent_def)
  have run: "event_history (run_ops ops' EventBus_init) = most_recent 1000 (published ops')" for ops'
    using fold_exec_op_history [OF init, of ops']
    by (simp add: run_ops_def published_def EventBus_init_def)
  have "run_ops (ops @ [Publish clk e]) EventBus_init = fst (publish clk (run_ops ops EventBus_init) e)"
    by (simp add: run_ops_def)
  moreover have "published (ops @ [Publish clk e]) = published ops @ [e]"
    by (simp add: published_def)
  ultimately have "event_history (fst (publish clk (run_ops ops EventBus_init) e))
       = most_recent 1000 (published ops @ [e])"
    using run [of "ops @ [Publish clk e]"] by simp
  with run [of ops] show ?thesis
    by (simp add: length_most_recent)
qed

subsection \<open>Querying the history\<close>

lemma slice_from_most_recent: "1 \<le> n \<Longrightarrow> slice_from (- n) xs = most_recent (nat n) xs"
  by (auto simp: slice_from_def most_recent_def max_def nat_diff_distrib' intro: arg_cong [where f = "\<lambda>k. drop k xs"])

lemmas eval_bus = run_ops_def publish_def Let_def EventBus_init_def handlers_get_def
  subscribe_def subscribe_global_def

lemma three_published:
  "event_history (run_ops
        [Publish (\<lambda>k. 0) (Event MOUSE_MOVED 1 ''mouse'' Map.empty (Some ''MOUSE_MOVED_1000000'')),
         Publish (\<lambda>k. 0) (Event KEY_PRESSED 2 ''keyboard'' Map.empty (Some ''KEY_PRESSED_2000000'')),
         Publish (\<lambda>k. 0) (Event KEY_PRESSED 3 ''keyboard'' Map.empty (Some ''KEY_PRESSED_3000000''))] EventBus_init)
   = [Event MOUSE_MOVED 1 ''mouse'' Map.empty (Some ''MOUSE_MOVED_1000000''),
      Event KEY_PRESSED 2 ''keyboard'' Map.empty (Some ''KEY_PRESSED_2000000''),
      Event KEY_PRESSED 3 ''keyboard'' Map.empty (Some ''KEY_PRESSED_3000000'')]"
  by (simp add: eval_bus)

text \<open>
  Claim C2, as the code has it. For a limit \<open>n \<ge> 1\<close>, \<open>get_event_history(t, n)\<close> returns,
  most recent last, those of the \<open>n\<close> most recent entries of the history (of any type)
  that have type \<open>t\<close>; without a type filter it returns these \<open>n\<close> entries themselves. The
  window is cut first and filtered afterwards.
\<close>

theorem history_query_window:
  assumes "1 \<le> n"
  shows "get_event_history b (Some t) n
           = filter (\<lambda>e. event_type e = t) (most_recent (nat n) (event_history b))
       \<and> get_event_history b None n = most_recent (nat n) (event_history b)"
  using assms by (simp add: get_event_history_def slice_from_most_recent)

theorem history_query_window_witness:
  "(1::int) \<le> 2
   \<and> get_event_history (run_ops
        [Publish (\<lambda>k. 0) (Event MOUSE_MOVED 1 ''mouse'' Map.empty (Some ''MOUSE_MOVED_1000000'')),
         Publish (\<lambda>k. 0) (Event KEY_PRESSED 2 ''keyboard'' Map.empty (Some ''KEY_PRESSED_2000000'')),
         Publish (\<lambda>k. 0) (Event KEY_PRESSED 3 ''keyboard'' Map.empty (Some ''KEY_PRESSED_3000000''))] EventBus_init) (Some KEY_PRESSED) 2
     = [Event KEY_PRESSED 2 ''keyboard'' Map.empty (Some ''KEY_PRESSED_2000000''),
        Event KEY_PRESSED 3 ''keyboard'' Map.empty (Some ''KEY_PRESSED_3000000'')]"
  using history_query_window [of 2 "run_ops
        [Publish (\<lambda>k. 0) (Event MOUSE_MOVED 1 ''mouse'' Map.empty (Some ''MOUSE_MOVED_1000000'')),
         Publish (\<lambda>k. 0) (Event KEY_PRESSED 2 ''keyboard'' Map.empty (Some ''KEY_PRESSED_2000000'')),
         Publish (\<lambda>k. 0) (Event KEY_PRESSED 3 ''keyboard'' Map.empty (Some ''KEY_PRESSED_3000000''))] EventBus_init" KEY_PRESSED]
  by (simp add: three_published most_recent_def)

text \<open>
  The claim as stated asks for the \<open>n\<close> most recent events of type \<open>t\<close>. After a mouse
  event followed by two key events, the query for mouse events with limit 2 is empty,
  although the history holds a mouse event.
\<close>

theorem history_query_filter_after_window_counterexample:
  "get_event_history (run_ops
        [Publish (\<lambda>k. 0) (Event MOUSE_MOVED 1 ''mouse'' Map.empty (Some ''MOUSE_MOVED_1000000'')),
         Publish (\<lambda>k. 0) (Event KEY_PRESSED 2 ''keyboard'' Map.empty (Some ''KEY_PRESSED_2000000'')),
         Publish (\<lambda>k. 0) (Event KEY_PRESSED 3 ''keyboard'' Map.empty (Some ''KEY_PRESSED_3000000''))] EventBus_init) (Some MOUSE_MOVED) 2 = []
   \<and> most_recent 2 (filter (\<lambda>e. event_type e = MOUSE_MOVED) (event_history (run_ops
        [Publish (\<lambda>k. 0) (Event MOUSE_MOVED 1 ''mouse'' Map.empty (Some ''MOUSE_MOVED_1000000'')),
         Publish (\<lambda>k. 0) (Event KEY_PRESSED 2 ''keyboard'' Map.empty (Some ''KEY_PRESSED_2000000'')),
         Publish (\<lambda>k. 0) (Event KEY_PRESSED 3 ''keyboard'' Map.empty (Some ''KEY_PRESSED_3000000''))] EventBus_init)))
     = [Event MOUSE_MOVED 1 ''mouse'' Map.empty (Some ''MOUSE_MOVED_1000000'')]"
  by (simp add: three_published get_event_history_def slice_from_def most_recent_def)

subsection \<open>Delivery\<close>















lemmas eval_registered = registered_for_def registered_global_def FunctionEventHandler_def




text \<open>
  Later publishes are a different matter. \<open>publish\<close> extends the very list the registry
  stores for the event's type, so the global handlers are written into it: with one
  handler subscribed to mouse events and one global handler, the first mouse event is
  given to each once, the second to the global handler twice.
\<close>

lemma publish_again_repeats_global_handlers:
  "invoked_with (Event MOUSE_MOVED 1 ''mouse'' Map.empty (Some ''MOUSE_MOVED_1000000''))
       (snd (publish (\<lambda>k. 0)
          (run_ops
         [Subscribe MOUSE_MOVED (FunctionEventHandler 1 (\<lambda>ev. None) [MOUSE_MOVED]),
          SubscribeGlobal \<lparr> hid = 2, hclass = ''Logger'', can_handle = (\<lambda>t. True),
             handle_event = (\<lambda>ev. None) \<rparr>] EventBus_init)
          (Event MOUSE_MOVED 1 ''mouse'' Map.empty (Some ''MOUSE_MOVED_1000000''))))
     = [1, 2]
   \<and> invoked_with (Event MOUSE_MOVED 1 ''mouse'' Map.empty (Some ''MOUSE_MOVED_1000000''))
       (snd (publish (\<lambda>k. 0)
          (run_ops
         [Subscribe MOUSE_MOVED (FunctionEventHandler 1 (\<lambda>ev. None) [MOUSE_MOVED]),
          SubscribeGlobal \<lparr> hid = 2, hclass = ''Logger'', can_handle = (\<lambda>t. True),
             handle_event = (\<lambda>ev. None) \<rparr>,
          Publish (\<lambda>k. 0) (Event MOUSE_MOVED 1 ''mouse'' Map.empty (Some ''MOUSE_MOVED_1000000''))] EventBus_init)
          (Event MOUSE_MOVED 1 ''mouse'' Map.empty (Some ''MOUSE_MOVED_1000000''))))
     = [1, 2, 2]"
  by (simp add: invoked_with_def eval_bus eval_registered)

section \<open>Properties of the recording session\<close>

text \<open>
  Claim C7. Whatever the state of the session, \<open>error(m)\<close> leaves it in state \<open>ERROR\<close>
  with \<open>m\<close> stored under \<open>error_message\<close> in the metadata's \<open>custom_data\<close>, and the
  change is entered in the state history. The transition table is not consulted: the
  statement holds for every session, also where \<open>can_transition_to\<close> forbids \<open>ERROR\<close>.
\<close>

theorem error_is_unconditional:
  "state (error now s m) = ERROR
   \<and> custom_data (rs_metadata (error now s m)) ''error_message'' = Some (AStr m)
   \<and> state_history (error now s m) = state_history s @ [(ERROR, now)]"
  by (simp add: error_def set_state_def notify_state_change_def Let_def)

text \<open>
  Claim C8. Each of \<open>prepare\<close>, \<open>start\<close>, \<open>pause\<close>, \<open>resume\<close>, \<open>stop\<close>, \<open>complete\<close> and
  \<open>reset\<close>, called when the table does not allow its target state from the current one,
  returns \<open>False\<close> and leaves the session as it was: state, metadata, state history, event
  count and everything else. In particular \<open>start\<close> on an \<open>IDLE\<close> session returns \<open>False\<close>
  and the state stays \<open>IDLE\<close>.
\<close>

theorem illegal_transition_rejected:
  "(\<not> can_transition_to s PREPARING \<longrightarrow> prepare env now s = (False, s))
   \<and> (\<not> can_transition_to s RECORDING \<longrightarrow> start now s = (False, s) \<and> resume now s = (False, s))
   \<and> (\<not> can_transition_to s PAUSED \<longrightarrow> pause now s = (False, s))
   \<and> (\<not> can_transition_to s STOPPING \<longrightarrow> stop now s = (False, s))
   \<and> (\<not> can_transition_to s STOPPED \<longrightarrow> complete_session now s = (False, s))
   \<and> (\<not> can_transition_to s IDLE \<longrightarrow> reset now s = (False, s))
   \<and> (state s = IDLE \<longrightarrow> start now s = (False, s) \<and> state (snd (start now s)) = IDLE)"
proof -
  have idle: "\<not> can_transition_to s RECORDING" if "state s = IDLE"
    using that by (simp add: can_transition_to_def)
  show ?thesis
    using idle
    by (simp add: prepare_def start_def resume_def pause_def stop_def complete_session_def reset_def)
qed

theorem illegal_transition_rejected_witness:
  "start 2 (RecordingSession_init ''uuid'' (Some ''s1'') None)
     = (False, RecordingSession_init ''uuid'' (Some ''s1'') None)
   \<and> resume 2 (RecordingSession_init ''uuid'' (Some ''s1'') None)
     = (False, RecordingSession_init ''uuid'' (Some ''s1'') None)
   \<and> pause 2 (RecordingSession_init ''uuid'' (Some ''s1'') None)
     = (False, RecordingSession_init ''uuid'' (Some ''s1'') None)
   \<and> stop 2 (RecordingSession_init ''uuid'' (Some ''s1'') None)
     = (False, RecordingSession_init ''uuid'' (Some ''s1'') None)
   \<and> complete_session 2 (RecordingSession_init ''uuid'' (Some ''s1'') None)
     = (False, RecordingSession_init ''uuid'' (Some ''s1'') None)
   \<and> reset 2 (RecordingSession_init ''uuid'' (Some ''s1'') None)
     = (False, RecordingSession_init ''uuid'' (Some ''s1'') None)
   \<and> state (snd (start 2 (RecordingSession_init ''uuid'' (Some ''s1'') None))) = IDLE
   \<and> prepare \<lparr> mkdir_ok = True, provider_ok = True, platform_name = Some ''linux'',
               screen_size = Some (1920, 1080) \<rparr> 2
         (snd (prepare \<lparr> mkdir_ok = True, provider_ok = True, platform_name = Some ''linux'',
                         screen_size = Some (1920, 1080) \<rparr> 1
                 (RecordingSession_init ''uuid'' (Some ''s1'') None)))
     = (False,
         snd (prepare \<lparr> mkdir_ok = True, provider_ok = True, platform_name = Some ''linux'',
                         screen_size = Some (1920, 1080) \<rparr> 1
                 (RecordingSession_init ''uuid'' (Some ''s1'') None)))"
proof -
  let ?s0 = "RecordingSession_init ''uuid'' (Some ''s1'') None"
  let ?env = "\<lparr> mkdir_ok = True, provider_ok = True, platform_name = Some ''linux'',
               screen_size = Some (1920, 1080) \<rparr>"
  let ?s1 = "snd (prepare ?env 1 ?s0)"
  have s0: "state ?s0 = IDLE"
    by (simp add: RecordingSession_init_def Let_def)
  have s1: "state ?s1 = PREPARING"
    by (simp add: prepare_def can_transition_to_def s0 set_state_def notify_state_change_def Let_def)
  from illegal_transition_rejected [of ?s0 ?env 2] s0
  have first: "start 2 ?s0 = (False, ?s0) \<and> resume 2 ?s0 = (False, ?s0) \<and> pause 2 ?s0 = (False, ?s0)
      \<and> stop 2 ?s0 = (False, ?s0) \<and> complete_session 2 ?s0 = (False, ?s0) \<and> reset 2 ?s0 = (False, ?s0)
      \<and> state (snd (start 2 ?s0)) = IDLE"
    by (simp add: can_transition_to_def)
  from illegal_transition_rejected [of ?s1 ?env 2] s1
  have second: "prepare ?env 2 ?s1 = (False, ?s1)"
    by (simp add: can_transition_to_def)
  from first second s0 show ?thesis by simp
qed

end
